theory Spec2Isabelle
  imports Main "HOL-Library.Word"
begin

unbundle bit_operations_syntax

section \<open>Data model\<close>

text \<open>
  The peer-to-peer request/response core of the node: the inbound stream handler
  (p2p/protocol/interface.go), the single-peer requester and the content identifier
  derivation (p2p/node, second file) and the node facade with the request dispatcher
  (p2p/node, first file).
\<close>

type_synonym byte = "8 word"
type_synonym bytes = "byte list"
type_synonym u32 = "32 word"
type_synonym hash = "256 word"
type_synonym peer = nat
type_synonym error = string

text \<open>common.Location: an opaque slice identifier with a canonical name.\<close>

datatype location = Location (Name: string)

text \<open>
  Blocks, headers and transactions are opaque payloads with a self-describing hash;
  the body field stands for everything else they hold.
\<close>

record block =
  block_hash :: hash
  block_body :: nat

record header =
  header_hash :: hash
  header_body :: nat

record transaction =
  tx_hash :: hash
  tx_body :: nat

text \<open>
  The dynamic types that the type switches and type assertions of the source tell apart.
  The \<open>datatype interface{}\<close> arguments of the source are used only through their dynamic
  type, so they are values of \<open>go_type\<close>.
\<close>

datatype go_type =
    TNil
  | TBlockPtr      \<comment> \<open>\<open>*types.Block\<close>\<close>
  | TBlockVal      \<comment> \<open>\<open>types.Block\<close>\<close>
  | THeaderPtr     \<comment> \<open>\<open>*types.Header\<close>\<close>
  | TTransactionPtr \<comment> \<open>\<open>*types.Transaction\<close>\<close>
  | THashVal       \<comment> \<open>\<open>common.Hash\<close>\<close>
  | THashPtr       \<comment> \<open>\<open>*common.Hash\<close>\<close>
  | TBigIntPtr     \<comment> \<open>\<open>*big.Int\<close>\<close>
  | TBigIntVal     \<comment> \<open>\<open>big.Int\<close>\<close>
  | TOther

text \<open>
  A value of type \<open>interface{}\<close>: its dynamic type and its content. A pointer is
  \<open>None\<close> when it is nil.
\<close>

datatype dyn =
    NilIface
  | BlockPtr "block option"
  | BlockVal block
  | HeaderPtr "header option"
  | TransactionPtr "transaction option"
  | HashVal hash
  | HashPtr "hash option"
  | BigIntPtr "int option"
  | BigIntVal int
  | OtherVal nat

fun type_of :: "dyn \<Rightarrow> go_type" where
  "type_of NilIface = TNil"
| "type_of (BlockPtr _) = TBlockPtr"
| "type_of (BlockVal _) = TBlockVal"
| "type_of (HeaderPtr _) = THeaderPtr"
| "type_of (TransactionPtr _) = TTransactionPtr"
| "type_of (HashVal _) = THashVal"
| "type_of (HashPtr _) = THashPtr"
| "type_of (BigIntPtr _) = TBigIntPtr"
| "type_of (BigIntVal _) = TBigIntVal"
| "type_of (OtherVal _) = TOther"

text \<open>
  The \<open>Hash()\<close> method of a payload behind a pointer: defined when the pointer points to
  an object, \<open>None\<close> otherwise (a nil receiver, or a value with no such method).
\<close>

fun Hash :: "dyn \<Rightarrow> hash option" where
  "Hash (BlockPtr (Some b)) = Some (block_hash b)"
| "Hash (HeaderPtr (Some h)) = Some (header_hash h)"
| "Hash (TransactionPtr (Some t)) = Some (tx_hash t)"
| "Hash _ = None"

text \<open>A call either returns or panics (the Go runtime aborts the goroutine's process).\<close>

datatype 'a outcome = Returned 'a | Panicked string

text \<open>
  The consensus backend (quai.ConsensusAPI), an external collaborator: its three lookups.
  Its \<open>OnNewBroadcast\<close> is recorded by the node state in \<open>broadcasts\<close>.
\<close>

record backend =
  LookupBlock :: "hash \<Rightarrow> location \<Rightarrow> block option"
  LookupHeader :: "hash \<Rightarrow> location \<Rightarrow> header option"
  LookupBlockHashByNumber :: "int \<Rightarrow> location \<Rightarrow> hash option"

text \<open>The calls made on the request ID manager, in order.\<close>

datatype registry_event = Generated u32 | Added u32 | Removed u32

text \<open>
  The state the core reads and writes: the node's cache and consensus backend, the peer
  manager's ban list and the host's forcibly closed connections, the calls forwarded to
  the consensus backend, and the process-wide request ID manager.
\<close>

record node_state =
  cache :: "hash \<Rightarrow> dyn option"
  consensus :: "backend option"
  banned :: "peer set"
  closed_peers :: "peer set"
  broadcasts :: "(peer \<times> dyn \<times> location) list"
  next_id :: u32
  pending :: "u32 set"
  registry_log :: "registry_event list"

text \<open>
  The external collaborators of the core, as far as the core calls them: the host's
  streams, the wire codec (p2p/pb), the pubsub engine and the DHT.
  \<open>peer_reply p req\<close> is what \<open>ReadMessageFromStream\<close> yields on a stream to \<open>p\<close>
  after the request bytes \<open>req\<close> were written to it.
  \<open>FindProvidersAsync c n r\<close> is the list of providers that the DHT enumerates for the
  content identifier \<open>c\<close> with limit \<open>n\<close> on the \<open>r\<close>-th query.
  \<open>peer_capture r i\<close> is the scheduler's part in the \<open>r\<close>-th query: how many further
  providers the enumeration has moved on by, when the goroutine started for the \<open>i\<close>-th
  provider reads the loop variable.
\<close>

record env =
  NewStream :: "peer \<Rightarrow> error option"
  EncodeQuaiRequest :: "u32 \<Rightarrow> location \<Rightarrow> dyn \<Rightarrow> go_type \<Rightarrow> error + bytes"
  DecodeQuaiRequest :: "bytes \<Rightarrow> error + (u32 \<times> go_type \<times> location \<times> dyn)"
  EncodeQuaiResponse :: "u32 \<Rightarrow> dyn \<Rightarrow> error + bytes"
  DecodeQuaiResponse :: "bytes \<Rightarrow> error + (u32 \<times> dyn)"
  WriteMessageToStream :: "peer \<Rightarrow> bytes \<Rightarrow> error option"
  peer_reply :: "peer \<Rightarrow> bytes \<Rightarrow> error + bytes"
  PeersForTopic :: "location \<Rightarrow> go_type \<Rightarrow> error + peer list"
  FindProvidersAsync :: "bytes \<Rightarrow> nat \<Rightarrow> nat \<Rightarrow> peer list"
  peer_capture :: "nat \<Rightarrow> nat \<Rightarrow> nat"

section \<open>Request ID manager and response cache\<close>

text \<open>
  Modelled from the spec: the request ID manager of p2p/protocol
  (\<open>GenerateRequestID\<close>, \<open>AddRequestID\<close>, \<open>RemoveRequestID\<close>) is not among the sources.
  Section 4.1: a process-wide counter plus a set of pending IDs; \<open>Generate\<close> returns a
  value never returned before (a monotonic counter), \<open>Add\<close> inserts into the pending set,
  \<open>Remove\<close> removes and is a no-op if the ID is absent.
\<close>

definition GenerateRequestID :: "node_state \<Rightarrow> u32 \<times> node_state" where
  "GenerateRequestID s =
     (next_id s,
      s\<lparr>next_id := next_id s + 1,
        registry_log := registry_log s @ [Generated (next_id s)]\<rparr>)"

definition AddRequestID :: "u32 \<Rightarrow> node_state \<Rightarrow> node_state" where
  "AddRequestID i s =
     s\<lparr>pending := insert i (pending s), registry_log := registry_log s @ [Added i]\<rparr>"

definition RemoveRequestID :: "u32 \<Rightarrow> node_state \<Rightarrow> node_state" where
  "RemoveRequestID i s =
     s\<lparr>pending := pending s - {i}, registry_log := registry_log s @ [Removed i]\<rparr>"

text \<open>
  Modelled from the spec: \<open>cacheGet\<close> and \<open>cacheAdd\<close> of the node are not among the
  sources. Section 4.2: a mapping from hash to (type tag, payload); \<open>Get\<close> returns the
  payload iff an entry exists and its tag equals the requested tag; \<open>Put\<close> inserts or
  overwrites, the tag being derived from the payload's kind.
\<close>

definition cacheGet :: "hash \<Rightarrow> go_type \<Rightarrow> node_state \<Rightarrow> dyn option" where
  "cacheGet h t s =
     (case cache s h of
        None \<Rightarrow> None
      | Some p \<Rightarrow> if type_of p = t then Some p else None)"

definition cacheAdd :: "hash \<Rightarrow> dyn \<Rightarrow> node_state \<Rightarrow> node_state" where
  "cacheAdd h p s = s\<lparr>cache := (cache s)(h \<mapsto> p)\<rparr>"

section \<open>Peer requester\<close>

text \<open>
  \<open>BanPeer\<close>: the peer manager bans the peer and the host closes its connection.
\<close>

definition BanPeer :: "peer \<Rightarrow> node_state \<Rightarrow> node_state" where
  "BanPeer p s = s\<lparr>banned := insert p (banned s), closed_peers := insert p (closed_peers s)\<rparr>"

text \<open>
  The final switch of \<open>requestFromPeer\<close> on the requested datatype: the payload is accepted,
  or control falls out of the switch (the response is invalid), or an evaluation inside the
  condition panics: \<open>Hash()\<close> on a nil pointer, or the assertion \<open>data.(common.Hash)\<close> on a
  selector that is not a hash. The condition is \<open>ok && x.Hash() == data.(common.Hash)\<close>,
  evaluated left to right.
\<close>

datatype verdict = Accept dyn | Invalid | Crash string

definition hash_matches :: "dyn \<Rightarrow> dyn \<Rightarrow> verdict" where
  "hash_matches recvd data =
     (case Hash recvd of
        None \<Rightarrow> Crash ''invalid memory address or nil pointer dereference''
      | Some h \<Rightarrow>
          (case data of
             HashVal want \<Rightarrow> if h = want then Accept recvd else Invalid
           | _ \<Rightarrow> Crash ''interface conversion: interface {} is not common.Hash''))"

definition check_response :: "go_type \<Rightarrow> dyn \<Rightarrow> dyn \<Rightarrow> verdict" where
  "check_response datatype data recvdType =
     (case datatype of
        TBlockPtr \<Rightarrow>
          (case recvdType of BlockPtr _ \<Rightarrow> hash_matches recvdType data | _ \<Rightarrow> Invalid)
      | THeaderPtr \<Rightarrow>
          (case recvdType of HeaderPtr _ \<Rightarrow> hash_matches recvdType data | _ \<Rightarrow> Invalid)
      | TTransactionPtr \<Rightarrow>
          (case recvdType of TransactionPtr _ \<Rightarrow> hash_matches recvdType data | _ \<Rightarrow> Invalid)
      | THashPtr \<Rightarrow>
          (case recvdType of HashPtr _ \<Rightarrow> Accept recvdType | _ \<Rightarrow> Invalid)
      | _ \<Rightarrow> Invalid)"

text \<open>
  \<open>requestFromPeer\<close>: opens a stream, takes a request ID, writes the request, registers
  the ID, reads and decodes one response, compares the IDs, unregisters the ID and
  checks the payload. Every early return of the source is a branch.
\<close>

definition requestFromPeer ::
  "env \<Rightarrow> peer \<Rightarrow> location \<Rightarrow> dyn \<Rightarrow> go_type \<Rightarrow> node_state
     \<Rightarrow> (error + dyn) outcome \<times> node_state" where
  "requestFromPeer E peerID loc data datatype s =
     (case NewStream E peerID of
        Some err \<Rightarrow> (Returned (Inl err), s)
      | None \<Rightarrow>
          (case GenerateRequestID s of
             (i, s1) \<Rightarrow>
               (case EncodeQuaiRequest E i loc data datatype of
                  Inl err \<Rightarrow> (Returned (Inl err), s1)
                | Inr requestBytes \<Rightarrow>
                    (case WriteMessageToStream E peerID requestBytes of
                       Some err \<Rightarrow> (Returned (Inl err), s1)
                     | None \<Rightarrow>
                         (let s2 = AddRequestID i s1 in
                          case peer_reply E peerID requestBytes of
                            Inl err \<Rightarrow> (Returned (Inl err), s2)
                          | Inr responseBytes \<Rightarrow>
                              (case DecodeQuaiResponse E responseBytes of
                                 Inl err \<Rightarrow> (Returned (Inl err), s2)
                               | Inr (recvdID, recvdType) \<Rightarrow>
                                   if recvdID \<noteq> i then (Panicked ''TODO: implement'', s2)
                                   else
                                     (let s3 = RemoveRequestID i s2 in
                                      case check_response datatype data recvdType of
                                        Accept p \<Rightarrow> (Returned (Inr p), s3)
                                      | Crash msg \<Rightarrow> (Panicked msg, s3)
                                      | Invalid \<Rightarrow>
                                          (Returned (Inl ''invalid response''),
                                           BanPeer peerID s3))))))))"

section \<open>Node facade\<close>

text \<open>
  \<open>GetBlock\<close>: the cache under the Block tag, then the consensus backend. The cached value
  goes through the assertion \<open>res.(*types.Block)\<close>; the backend is called with no nil check.
\<close>

definition GetBlock :: "hash \<Rightarrow> location \<Rightarrow> node_state \<Rightarrow> block option outcome" where
  "GetBlock h loc s =
     (case cacheGet h TBlockPtr s of
        Some res \<Rightarrow>
          (case res of
             BlockPtr b \<Rightarrow> Returned b
           | _ \<Rightarrow> Panicked ''interface conversion: interface {} is not *types.Block'')
      | None \<Rightarrow>
          (case consensus s of
             None \<Rightarrow> Panicked ''invalid memory address or nil pointer dereference''
           | Some be \<Rightarrow> Returned (LookupBlock be h loc)))"

definition GetBlockHashByNumber :: "int \<Rightarrow> location \<Rightarrow> node_state \<Rightarrow> hash option outcome" where
  "GetBlockHashByNumber number loc s =
     (case consensus s of
        None \<Rightarrow> Panicked ''invalid memory address or nil pointer dereference''
      | Some be \<Rightarrow> Returned (LookupBlockHashByNumber be number loc))"

definition GetHeader :: "hash \<Rightarrow> location \<Rightarrow> node_state \<Rightarrow> header option outcome" where
  "GetHeader h loc s = Panicked ''TODO: implement''"

text \<open>
  \<open>handleBroadcast\<close>: a \<open>types.Block\<close> value is cached under its hash as a pointer to it;
  anything else returns at once. After the switch the data is passed on to the consensus
  backend if one is set.
\<close>

definition handleBroadcast :: "peer \<Rightarrow> dyn \<Rightarrow> location \<Rightarrow> node_state \<Rightarrow> node_state" where
  "handleBroadcast sourcePeer data nodeLocation s =
     (case data of
        BlockVal v \<Rightarrow>
          (let s1 = cacheAdd (block_hash v) (BlockPtr (Some v)) s in
           case consensus s1 of
             None \<Rightarrow> s1
           | Some be \<Rightarrow> s1\<lparr>broadcasts := broadcasts s1 @ [(sourcePeer, data, nodeLocation)]\<rparr>)
      | _ \<Rightarrow> s)"

section \<open>Inbound stream handler\<close>

text \<open>
  Modelled from the spec: the constant \<open>ProtocolVersion\<close> of p2p/protocol is not among
  the sources; section 6 gives \<open>/quai/1.0.0\<close> as its value.
\<close>

definition ProtocolVersion :: string where
  "ProtocolVersion = ''/quai/1.0.0''"

text \<open>
  What one call of \<open>ReadMessageFromStream\<close> yields on the inbound stream. A stream is its
  remote peer, its negotiated protocol and the results of the successive reads; when they
  are used up the peer has closed the stream.
\<close>

datatype read_result = Eof | ReadFailed error | Message bytes

record stream =
  remote :: peer
  stream_protocol :: string
  incoming :: "read_result list"

text \<open>
  The per-type handlers return the error of the source (\<open>None\<close> is nil) or panic, and the
  frames written to the stream so far.
\<close>

definition handleBlockRequest ::
  "env \<Rightarrow> u32 \<Rightarrow> location \<Rightarrow> hash \<Rightarrow> peer \<Rightarrow> node_state \<Rightarrow> bytes list
     \<Rightarrow> error option outcome \<times> bytes list" where
  "handleBlockRequest E i loc h rp s written =
     (case GetBlock h loc s of
        Panicked msg \<Rightarrow> (Panicked msg, written)
      | Returned block \<Rightarrow>
          \<comment> \<open>\<open>if block == nil\<close> only logs; then \<open>block.Hash()\<close> is evaluated for the log line\<close>
          (case Hash (BlockPtr block) of
             None \<Rightarrow> (Panicked ''invalid memory address or nil pointer dereference'', written)
           | Some _ \<Rightarrow>
               (case EncodeQuaiResponse E i (BlockPtr block) of
                  Inl err \<Rightarrow> (Returned (Some err), written)
                | Inr data \<Rightarrow>
                    (case WriteMessageToStream E rp data of
                       Some err \<Rightarrow> (Returned (Some err), written)
                     | None \<Rightarrow> (Returned None, written @ [data])))))"

definition handleHeaderRequest ::
  "env \<Rightarrow> u32 \<Rightarrow> location \<Rightarrow> hash \<Rightarrow> peer \<Rightarrow> node_state \<Rightarrow> bytes list
     \<Rightarrow> error option outcome \<times> bytes list" where
  "handleHeaderRequest E i loc h rp s written =
     (case GetHeader h loc s of
        Panicked msg \<Rightarrow> (Panicked msg, written)
      | Returned hdr \<Rightarrow>
          (case hdr of
             None \<Rightarrow> (Returned None, written)
           | Some _ \<Rightarrow>
               (case EncodeQuaiResponse E i (HeaderPtr hdr) of
                  Inl err \<Rightarrow> (Returned (Some err), written)
                | Inr data \<Rightarrow>
                    (case WriteMessageToStream E rp data of
                       Some err \<Rightarrow> (Returned (Some err), written)
                     | None \<Rightarrow> (Returned None, written @ [data])))))"

definition handleTransactionRequest ::
  "env \<Rightarrow> u32 \<Rightarrow> location \<Rightarrow> hash \<Rightarrow> peer \<Rightarrow> node_state \<Rightarrow> bytes list
     \<Rightarrow> error option outcome \<times> bytes list" where
  "handleTransactionRequest E i loc h rp s written = (Panicked ''TODO: implement'', written)"

definition handleBlockNumberRequest ::
  "env \<Rightarrow> u32 \<Rightarrow> location \<Rightarrow> int \<Rightarrow> peer \<Rightarrow> node_state \<Rightarrow> bytes list
     \<Rightarrow> error option outcome \<times> bytes list" where
  "handleBlockNumberRequest E i loc number rp s written =
     (case GetBlockHashByNumber number loc s of
        Panicked msg \<Rightarrow> (Panicked msg, written)
      | Returned blockHash \<Rightarrow>
          \<comment> \<open>\<open>if blockHash == nil\<close> only logs, and the pointer itself is what is encoded\<close>
          (case EncodeQuaiResponse E i (HashPtr blockHash) of
             Inl err \<Rightarrow> (Returned (Some err), written)
           | Inr data \<Rightarrow>
               (case WriteMessageToStream E rp data of
                  Some err \<Rightarrow> (Returned (Some err), written)
                | None \<Rightarrow> (Returned None, written @ [data]))))"

text \<open>
  The switch of the read loop on the decoded type. The selector reaches the handlers
  through the assertions \<open>query.(common.Hash)\<close> and \<open>query.(big.Int)\<close>, which panic on any
  other dynamic type. The first switch of the loop, on the selector, only logs.
\<close>

definition dispatch ::
  "env \<Rightarrow> peer \<Rightarrow> node_state \<Rightarrow> u32 \<Rightarrow> go_type \<Rightarrow> location \<Rightarrow> dyn \<Rightarrow> bytes list
     \<Rightarrow> error option outcome \<times> bytes list" where
  "dispatch E rp s i decodedType loc query written =
     (case decodedType of
        TBlockPtr \<Rightarrow>
          (case query of
             HashVal h \<Rightarrow> handleBlockRequest E i loc h rp s written
           | _ \<Rightarrow> (Panicked ''interface conversion: interface {} is not common.Hash'', written))
      | THeaderPtr \<Rightarrow>
          (case query of
             HashVal h \<Rightarrow> handleHeaderRequest E i loc h rp s written
           | _ \<Rightarrow> (Panicked ''interface conversion: interface {} is not common.Hash'', written))
      | TTransactionPtr \<Rightarrow>
          (case query of
             HashVal h \<Rightarrow> handleTransactionRequest E i loc h rp s written
           | _ \<Rightarrow> (Panicked ''interface conversion: interface {} is not common.Hash'', written))
      | THashVal \<Rightarrow>
          (case query of
             BigIntVal n \<Rightarrow> handleBlockNumberRequest E i loc n rp s written
           | _ \<Rightarrow> (Panicked ''interface conversion: interface {} is not big.Int'', written))
      | _ \<Rightarrow> (Returned None, written))"

text \<open>
  The read loop: end of stream leaves the loop; a read error, a decoding error and a
  handler error are logged and the loop continues; a panic ends the handler.
\<close>

fun read_loop ::
  "env \<Rightarrow> peer \<Rightarrow> node_state \<Rightarrow> read_result list \<Rightarrow> bytes list
     \<Rightarrow> unit outcome \<times> bytes list" where
  "read_loop E rp s [] written = (Returned (), written)"
| "read_loop E rp s (Eof # rest) written = (Returned (), written)"
| "read_loop E rp s (ReadFailed err # rest) written = read_loop E rp s rest written"
| "read_loop E rp s (Message data # rest) written =
     (case DecodeQuaiRequest E data of
        Inl err \<Rightarrow> read_loop E rp s rest written
      | Inr (i, decodedType, loc, query) \<Rightarrow>
          (case dispatch E rp s i decodedType loc query written of
             (Panicked msg, written') \<Rightarrow> (Panicked msg, written')
           | (Returned _, written') \<Rightarrow> read_loop E rp s rest written'))"

text \<open>
  \<open>QuaiProtocolHandler\<close>: a stream of another protocol is left at once. The result is how
  the handler ended and the frames it wrote; the deferred \<open>stream.Close()\<close> runs in
  every case.
\<close>

definition QuaiProtocolHandler :: "env \<Rightarrow> stream \<Rightarrow> node_state \<Rightarrow> unit outcome \<times> bytes list" where
  "QuaiProtocolHandler E st s =
     (if stream_protocol st \<noteq> ProtocolVersion then (Returned (), [])
      else read_loop E (remote st) s (incoming st) [])"

section \<open>Content identifier derivation\<close>

text \<open>
  The unsigned varint of go-varint (\<open>PutUvarint\<close>): seven bits per byte, least significant
  group first, the top bit set on every byte but the last.
\<close>

function uvarint :: "nat \<Rightarrow> bytes" where
  "uvarint x =
     (if x < 128 then [of_nat x]
      else ((of_nat x :: byte) OR 128) # uvarint (x div 128))"
  by pat_completeness auto
termination
  by (relation "measure (\<lambda>x. x)") auto

declare uvarint.simps [simp del]

text \<open>
  go-multihash and go-cid, as their sources define the three names that \<open>locationToCid\<close>
  uses. \<open>multihash.Encode(buf, code)\<close> wraps the bytes it is given as the digest of a
  multihash: the varint of the function code, the varint of the length of \<open>buf\<close>, then
  \<open>buf\<close> itself; it computes no hash (that is \<open>multihash.Sum\<close>). \<open>cid.NewCidV1\<close>
  is the varint of the version 1, the varint of the codec, then the multihash.
\<close>

definition SHA2_256 :: nat where
  "SHA2_256 = 18"

definition Raw :: nat where
  "Raw = 85"

definition multihash_Encode :: "bytes \<Rightarrow> nat \<Rightarrow> bytes" where
  "multihash_Encode buf code = uvarint code @ uvarint (length buf) @ buf"

definition NewCidV1 :: "nat \<Rightarrow> bytes \<Rightarrow> bytes" where
  "NewCidV1 codecType mhash = uvarint 1 @ uvarint codecType @ mhash"

definition locationToCid :: "location \<Rightarrow> bytes" where
  "locationToCid loc =
     (let sliceBytes = map of_char (Name loc);
          mhash = multihash_Encode sliceBytes SHA2_256
      in NewCidV1 Raw mhash)"

subsection \<open>The derivation in the words of the specification\<close>

text \<open>SHA2-256 (FIPS 180-4) on byte strings.\<close>

definition rotr :: "nat \<Rightarrow> u32 \<Rightarrow> u32" where
  "rotr n x = drop_bit n x OR push_bit (32 - n) x"

definition Ch :: "u32 \<Rightarrow> u32 \<Rightarrow> u32 \<Rightarrow> u32" where
  "Ch x y z = (x AND y) XOR (NOT x AND z)"

definition Maj :: "u32 \<Rightarrow> u32 \<Rightarrow> u32 \<Rightarrow> u32" where
  "Maj x y z = (x AND y) XOR (x AND z) XOR (y AND z)"

definition Sigma0 :: "u32 \<Rightarrow> u32" where
  "Sigma0 x = rotr 2 x XOR rotr 13 x XOR rotr 22 x"

definition Sigma1 :: "u32 \<Rightarrow> u32" where
  "Sigma1 x = rotr 6 x XOR rotr 11 x XOR rotr 25 x"

definition sigma0 :: "u32 \<Rightarrow> u32" where
  "sigma0 x = rotr 7 x XOR rotr 18 x XOR drop_bit 3 x"

definition sigma1 :: "u32 \<Rightarrow> u32" where
  "sigma1 x = rotr 17 x XOR rotr 19 x XOR drop_bit 10 x"

definition K256 :: "u32 list" where
  "K256 =
    [0x428a2f98, 0x71374491, 0xb5c0fbcf, 0xe9b5dba5, 0x3956c25b, 0x59f111f1, 0x923f82a4, 0xab1c5ed5,
     0xd807aa98, 0x12835b01, 0x243185be, 0x550c7dc3, 0x72be5d74, 0x80deb1fe, 0x9bdc06a7, 0xc19bf174,
     0xe49b69c1, 0xefbe4786, 0x0fc19dc6, 0x240ca1cc, 0x2de92c6f, 0x4a7484aa, 0x5cb0a9dc, 0x76f988da,
     0x983e5152, 0xa831c66d, 0xb00327c8, 0xbf597fc7, 0xc6e00bf3, 0xd5a79147, 0x06ca6351, 0x14292967,
     0x27b70a85, 0x2e1b2138, 0x4d2c6dfc, 0x53380d13, 0x650a7354, 0x766a0abb, 0x81c2c92e, 0x92722c85,
     0xa2bfe8a1, 0xa81a664b, 0xc24b8b70, 0xc76c51a3, 0xd192e819, 0xd6990624, 0xf40e3585, 0x106aa070,
     0x19a4c116, 0x1e376c08, 0x2748774c, 0x34b0bcb5, 0x391c0cb3, 0x4ed8aa4a, 0x5b9cca4f, 0x682e6ff3,
     0x748f82ee, 0x78a5636f, 0x84c87814, 0x8cc70208, 0x90befffa, 0xa4506ceb, 0xbef9a3f7, 0xc67178f2]"

type_synonym sha_state = "u32 \<times> u32 \<times> u32 \<times> u32 \<times> u32 \<times> u32 \<times> u32 \<times> u32"

definition H256 :: sha_state where
  "H256 = (0x6a09e667, 0xbb67ae85, 0x3c6ef372, 0xa54ff53a,
           0x510e527f, 0x9b05688c, 0x1f83d9ab, 0x5be0cd19)"

definition be32 :: "u32 \<Rightarrow> bytes" where
  "be32 x = [ucast (drop_bit 24 x), ucast (drop_bit 16 x), ucast (drop_bit 8 x), ucast x]"

definition be64 :: "64 word \<Rightarrow> bytes" where
  "be64 x = map (\<lambda>k. ucast (drop_bit (8 * k) x)) [7, 6, 5, 4, 3, 2, 1, 0]"

definition sha_pad :: "bytes \<Rightarrow> bytes" where
  "sha_pad msg =
     msg @ [128] @ replicate ((119 - length msg mod 64) mod 64) 0 @ be64 (of_nat (8 * length msg))"

fun words_of :: "bytes \<Rightarrow> u32 list" where
  "words_of (a # b # c # d # rest) =
     (push_bit 24 (ucast a) OR push_bit 16 (ucast b) OR push_bit 8 (ucast c) OR ucast d)
       # words_of rest"
| "words_of _ = []"

fun schedule :: "nat \<Rightarrow> u32 list \<Rightarrow> u32 list" where
  "schedule 0 w = w"
| "schedule (Suc n) w =
     (let t = length w in
      schedule n
        (w @ [sigma1 (w ! (t - 2)) + w ! (t - 7) + sigma0 (w ! (t - 15)) + w ! (t - 16)]))"

definition sha_round :: "sha_state \<Rightarrow> u32 \<times> u32 \<Rightarrow> sha_state" where
  "sha_round st kw =
     (case st of (a, b, c, d, e, f, g, h) \<Rightarrow>
        (let t1 = h + Sigma1 e + Ch e f g + fst kw + snd kw;
             t2 = Sigma0 a + Maj a b c
         in (t1 + t2, a, b, c, d + t1, e, f, g)))"

definition sha_add :: "sha_state \<Rightarrow> sha_state \<Rightarrow> sha_state" where
  "sha_add x y =
     (case x of (a, b, c, d, e, f, g, h) \<Rightarrow>
      case y of (a', b', c', d', e', f', g', h') \<Rightarrow>
        (a + a', b + b', c + c', d + d', e + e', f + f', g + g', h + h'))"

definition sha_block :: "sha_state \<Rightarrow> bytes \<Rightarrow> sha_state" where
  "sha_block st blk =
     sha_add st (foldl sha_round st (zip K256 (schedule 48 (words_of blk))))"

fun sha_blocks :: "nat \<Rightarrow> sha_state \<Rightarrow> bytes \<Rightarrow> sha_state" where
  "sha_blocks 0 st m = st"
| "sha_blocks (Suc n) st m = sha_blocks n (sha_block st (take 64 m)) (drop 64 m)"

definition sha256 :: "bytes \<Rightarrow> bytes" where
  "sha256 msg =
     (let m = sha_pad msg in
      case sha_blocks (length m div 64) H256 m of (a, b, c, d, e, f, g, h) \<Rightarrow>
        be32 a @ be32 b @ be32 c @ be32 d @ be32 e @ be32 f @ be32 g @ be32 h)"

text \<open>
  Section 4.6: the CIDv1 with the raw codec whose multihash is the SHA2-256 digest of
  the location's name.
\<close>

definition locationToCid_spec :: "location \<Rightarrow> bytes" where
  "locationToCid_spec loc =
     NewCidV1 Raw (multihash_Encode (sha256 (map of_char (Name loc))) SHA2_256)"

section \<open>Request dispatcher\<close>

text \<open>
  The dispatcher starts one goroutine per peer; each calls \<open>requestFromPeer\<close> and, on
  success, sends the payload on the result channel. The model runs the attempts one
  after the other in the order in which they are started and collects the payloads sent
  on the channel; a panic in an attempt ends the run. Sleeping between DHT rounds and the
  blocking of a send on a full channel are left out.
\<close>

definition maxDHTQueryRetries :: nat where
  "maxDHTQueryRetries = 3"

definition peersPerDHTQuery :: nat where
  "peersPerDHTQuery = 10"

type_synonym attempt = "peer \<Rightarrow> dyn list \<times> node_state \<Rightarrow> dyn list outcome \<times> node_state"

fun attempts :: "attempt \<Rightarrow> peer list \<Rightarrow> dyn list \<times> node_state \<Rightarrow> dyn list outcome \<times> node_state" where
  "attempts f [] (resultChan, s) = (Returned resultChan, s)"
| "attempts f (p # ps) (resultChan, s) =
     (case f p (resultChan, s) of
        (Panicked msg, s') \<Rightarrow> (Panicked msg, s')
      | (Returned resultChan', s') \<Rightarrow> attempts f ps (resultChan', s'))"

text \<open>
  The goroutines of the topic peers take their peer as an argument. Those of the DHT
  rounds are closures over the loop variable \<open>peer\<close> of
  \<open>for peer := range p.dht.FindProvidersAsync(...)\<close> and read \<open>peer.ID\<close> when they
  run: where the loop variable is shared by the iterations (Go before 1.22), the
  goroutine started for the \<open>i\<close>-th provider asks the provider that the loop has reached
  by then, the \<open>i\<close>-th or a later one, the last one once the loop has ended. With
  \<open>late i = 0\<close> for every \<open>i\<close> each goroutine asks its own provider.
\<close>

definition captured_peers :: "(nat \<Rightarrow> nat) \<Rightarrow> peer list \<Rightarrow> peer list" where
  "captured_peers late ps =
     map (\<lambda>i. ps ! min (i + late i) (length ps - 1)) [0..<length ps]"

function dht_rounds ::
  "attempt \<Rightarrow> env \<Rightarrow> bytes \<Rightarrow> nat \<Rightarrow> dyn list \<times> node_state \<Rightarrow> dyn list outcome \<times> node_state" where
  "dht_rounds f E shardCid retries (resultChan, s) =
     (if retries < maxDHTQueryRetries then
        (case attempts f
                (captured_peers (peer_capture E retries)
                   (FindProvidersAsync E shardCid peersPerDHTQuery retries))
                (resultChan, s) of
           (Panicked msg, s') \<Rightarrow> (Panicked msg, s')
         | (Returned resultChan', s') \<Rightarrow> dht_rounds f E shardCid (retries + 1) (resultChan', s'))
      else (Returned resultChan, s))"
  by pat_completeness auto
termination
  by (relation "measure (\<lambda>(f, E, shardCid, retries, st). maxDHTQueryRetries - retries)") auto

declare dht_rounds.simps [simp del]

text \<open>The goroutine of \<open>RequestByNumber\<close>: the payload is sent, nothing else is done.\<close>

definition number_attempt :: "env \<Rightarrow> location \<Rightarrow> int option \<Rightarrow> go_type \<Rightarrow> attempt" where
  "number_attempt E loc number datatype peerID st =
     (case st of (resultChan, s) \<Rightarrow>
        (case requestFromPeer E peerID loc (BigIntPtr number) datatype s of
           (Returned (Inr recvd), s') \<Rightarrow> (Returned (resultChan @ [recvd]), s')
         | (Returned (Inl err), s') \<Rightarrow> (Returned resultChan, s')
         | (Panicked msg, s') \<Rightarrow> (Panicked msg, s')))"

definition RequestByNumber ::
  "env \<Rightarrow> location \<Rightarrow> int option \<Rightarrow> go_type \<Rightarrow> node_state \<Rightarrow> dyn list outcome \<times> node_state" where
  "RequestByNumber E loc number datatype s =
     (case PeersForTopic E loc datatype of
        Inl err \<Rightarrow> (Returned [], s)
      | Inr peers \<Rightarrow>
          (case attempts (number_attempt E loc number datatype) peers ([], s) of
             (Panicked msg, s') \<Rightarrow> (Panicked msg, s')
           | (Returned resultChan, s') \<Rightarrow>
               dht_rounds (number_attempt E loc number datatype) E (locationToCid loc) 0
                 (resultChan, s')))"

text \<open>The goroutine of \<open>RequestByHash\<close>: the payload is cached under the hash, then sent.\<close>

definition hash_attempt :: "env \<Rightarrow> location \<Rightarrow> hash \<Rightarrow> go_type \<Rightarrow> attempt" where
  "hash_attempt E loc h datatype peerID st =
     (case st of (resultChan, s) \<Rightarrow>
        (case requestFromPeer E peerID loc (HashVal h) datatype s of
           (Returned (Inr recvd), s') \<Rightarrow> (Returned (resultChan @ [recvd]), cacheAdd h recvd s')
         | (Returned (Inl err), s') \<Rightarrow> (Returned resultChan, s')
         | (Panicked msg, s') \<Rightarrow> (Panicked msg, s')))"

text \<open>
  The part of \<open>RequestByHash\<close> after the cache check: the topic peers, then the DHT rounds.
\<close>

definition RequestByHash_network ::
  "env \<Rightarrow> location \<Rightarrow> hash \<Rightarrow> go_type \<Rightarrow> node_state \<Rightarrow> dyn list outcome \<times> node_state" where
  "RequestByHash_network E loc h datatype s =
     (case PeersForTopic E loc datatype of
        Inl err \<Rightarrow> (Returned [], s)
      | Inr peers \<Rightarrow>
          (case attempts (hash_attempt E loc h datatype) peers ([], s) of
             (Panicked msg, s') \<Rightarrow> (Panicked msg, s')
           | (Returned resultChan, s') \<Rightarrow>
               dht_rounds (hash_attempt E loc h datatype) E (locationToCid loc) 0
                 (resultChan, s')))"

text \<open>
  \<open>RequestByHash\<close>: on a cache hit the value is sent through the assertion
  \<open>res.(*types.Block)\<close>, whatever the requested datatype, and the channel is closed.
\<close>

definition RequestByHash ::
  "env \<Rightarrow> location \<Rightarrow> hash \<Rightarrow> go_type \<Rightarrow> node_state \<Rightarrow> dyn list outcome \<times> node_state" where
  "RequestByHash E loc h datatype s =
     (case cacheGet h datatype s of
        Some res \<Rightarrow>
          (case res of
             BlockPtr b \<Rightarrow> (Returned [BlockPtr b], s)
           | _ \<Rightarrow> (Panicked ''interface conversion: interface {} is not *types.Block'', s))
      | None \<Rightarrow> RequestByHash_network E loc h datatype s)"

section \<open>Example nodes and peers\<close>

text \<open>
  A node with an empty cache, no consensus backend and an unused request ID manager, and
  an environment in which every stream operation succeeds, the topic has the single
  peer 1, the DHT has no providers, every goroutine reads its own provider and the codec
  decodes every response frame to \<open>response\<close> and every request frame to \<open>request\<close>.
\<close>

definition empty_node :: node_state where
  "empty_node =
     \<lparr>cache = (\<lambda>h. None), consensus = None, banned = {}, closed_peers = {},
      broadcasts = [], next_id = 0, pending = {}, registry_log = []\<rparr>"

definition example_env ::
  "(error + (u32 \<times> dyn)) \<Rightarrow> (error + (u32 \<times> go_type \<times> location \<times> dyn)) \<Rightarrow> env" where
  "example_env response request =
     \<lparr>NewStream = (\<lambda>p. None),
      EncodeQuaiRequest = (\<lambda>i loc d t. Inr [ucast i]),
      DecodeQuaiRequest = (\<lambda>bs. request),
      EncodeQuaiResponse = (\<lambda>i p. Inr [ucast i]),
      DecodeQuaiResponse = (\<lambda>bs. response),
      WriteMessageToStream = (\<lambda>p bs. None),
      peer_reply = (\<lambda>p req. Inr req),
      PeersForTopic = (\<lambda>loc t. Inr [1]),
      FindProvidersAsync = (\<lambda>c n r. []),
      peer_capture = (\<lambda>r i. 0)\<rparr>"

text \<open>
  A block and a header, a consensus backend that knows no block by hash and the hash of
  block number 42, a node with that backend, and an inbound stream of the right protocol
  on which one frame arrives before the peer closes it.
\<close>

definition example_block :: block where
  "example_block = \<lparr>block_hash = 187, block_body = 7\<rparr>"

definition example_header :: header where
  "example_header = \<lparr>header_hash = 170, header_body = 3\<rparr>"

definition example_backend :: backend where
  "example_backend =
     \<lparr>LookupBlock = (\<lambda>h loc. None),
      LookupHeader = (\<lambda>h loc. None),
      LookupBlockHashByNumber = (\<lambda>n loc. if n = 42 then Some 221 else None)\<rparr>"

definition serving_node :: node_state where
  "serving_node = empty_node\<lparr>consensus := Some example_backend\<rparr>"

definition example_stream :: stream where
  "example_stream = \<lparr>remote = 2, stream_protocol = ProtocolVersion, incoming = [Message [7]]\<rparr>"

section \<open>The dispatcher and the cache\<close>

text \<open>No attempt against a peer touches the cache, whatever its outcome.\<close>

lemma requestFromPeer_cache:
  "cache (snd (requestFromPeer E p loc data dt s)) = cache s"
  by (simp add: requestFromPeer_def GenerateRequestID_def AddRequestID_def
      RemoveRequestID_def BanPeer_def Let_def
      split: option.splits sum.splits prod.splits verdict.splits)

lemma number_attempt_cache:
  "cache (snd (number_attempt E loc n dt p (c, s))) = cache s"
proof -
  obtain r s' where r: "requestFromPeer E p loc (BigIntPtr n) dt s = (r, s')"
    by (cases "requestFromPeer E p loc (BigIntPtr n) dt s")
  have "cache s' = cache s"
    using requestFromPeer_cache [of E p loc "BigIntPtr n" dt s] r by simp
  then show ?thesis
    by (simp add: number_attempt_def r split: outcome.splits sum.splits)
qed

lemma attempts_cache:
  assumes f: "\<forall>p c s. cache (snd (f p (c, s))) = cache s"
  shows "cache (snd (attempts f ps (c, s))) = cache s"
proof (induction ps arbitrary: c s)
  case Nil
  show ?case by simp
next
  case (Cons p ps)
  obtain r s' where r: "f p (c, s) = (r, s')" by (cases "f p (c, s)")
  have s': "cache s' = cache s" using f r by (metis snd_conv)
  show ?case
  proof (cases r)
    case (Returned c')
    then show ?thesis using r s' Cons.IH [of c' s'] by simp
  next
    case (Panicked m)
    then show ?thesis using r s' by simp
  qed
qed

lemma dht_rounds_cache:
  assumes f: "\<forall>p c s. cache (snd (f p (c, s))) = cache s"
  shows "cache (snd (dht_rounds f E cid retries (c, s))) = cache s"
proof (induction "maxDHTQueryRetries - retries" arbitrary: retries c s)
  case 0
  then have "\<not> retries < maxDHTQueryRetries" by simp
  then show ?case by (simp add: dht_rounds.simps [of f E cid retries])
next
  case (Suc k)
  then have lt: "retries < maxDHTQueryRetries" by simp
  let ?ps = "captured_peers (peer_capture E retries)
      (FindProvidersAsync E cid peersPerDHTQuery retries)"
  obtain r s' where r: "attempts f ?ps (c, s) = (r, s')"
    by (cases "attempts f ?ps (c, s)")
  have s': "cache s' = cache s"
    using attempts_cache [OF f, of ?ps c s] r by simp
  show ?case
  proof (cases r)
    case (Returned c')
    have "k = maxDHTQueryRetries - (retries + 1)" using Suc.hyps(2) by simp
    then have "cache (snd (dht_rounds f E cid (retries + 1) (c', s'))) = cache s'"
      by (rule Suc.hyps(1))
    then show ?thesis using lt r s' Returned
      by (simp add: dht_rounds.simps [of f E cid retries])
  next
    case (Panicked m)
    then show ?thesis using lt r s'
      by (simp add: dht_rounds.simps [of f E cid retries])
  qed
qed

lemma number_attempt_frame:
  "\<forall>p c s. cache (snd (number_attempt E loc n dt p (c, s))) = cache s"
  by (simp add: number_attempt_cache)

lemma RequestByNumber_cache:
  "cache (snd (RequestByNumber E loc n dt s)) = cache s"
proof (cases "PeersForTopic E loc dt")
  case (Inl err)
  then show ?thesis by (simp add: RequestByNumber_def)
next
  case (Inr peers)
  let ?f = "number_attempt E loc n dt"
  obtain r s' where r: "attempts ?f peers ([], s) = (r, s')"
    by (cases "attempts ?f peers ([], s)")
  have s': "cache s' = cache s"
    using attempts_cache [OF number_attempt_frame, of E loc n dt peers "[]" s] r by simp
  show ?thesis
  proof (cases r)
    case (Returned c)
    have "cache (snd (dht_rounds ?f E (locationToCid loc) 0 (c, s'))) = cache s'"
      by (rule dht_rounds_cache [OF number_attempt_frame])
    then show ?thesis using Inr r s' Returned by (simp add: RequestByNumber_def)
  next
    case (Panicked m)
    then show ?thesis using Inr r s' by (simp add: RequestByNumber_def)
  qed
qed


text \<open>
  When no goroutine is late every provider is asked once, in order; when the goroutine of
  the first of two providers is late by one, the second provider is asked twice.
\<close>

lemma captured_peers_on_time: "captured_peers (\<lambda>i. 0) ps = ps"
proof -
  have "map (\<lambda>i. ps ! min i (length ps - 1)) [0..<length ps]
      = map (\<lambda>i. ps ! i) [0..<length ps]"
    by (rule map_cong) (auto simp: min_def)
  then show ?thesis by (simp add: captured_peers_def map_nth)
qed

lemma captured_peers_late: "captured_peers (\<lambda>i. 1) [514, 515] = [515, 515]"
  by (simp add: captured_peers_def upt_rec)

lemma example_by_number_delivery:
  "fst (RequestByNumber (example_env (Inr (0, HashPtr (Some 221))) (Inl ''none''))
          (Location ''cyprus1'') (Some 42) THashPtr empty_node)
     = Returned [HashPtr (Some 221)]"
  by (simp add: RequestByNumber_def example_env_def empty_node_def number_attempt_def
      requestFromPeer_def GenerateRequestID_def AddRequestID_def RemoveRequestID_def
      check_response_def dht_rounds.simps maxDHTQueryRetries_def captured_peers_def)

text \<open>
  C8: \<open>RequestByNumber\<close> never writes to the response cache: the cache after the
  dispatcher has finished is the cache before, every lookup gives what it gave before,
  and a following \<open>RequestByHash\<close> for a hash that the cache did not hold goes to the
  network instead of taking the cache's short cut.
\<close>

theorem RequestByNumber_never_caches:
  "cache (snd (RequestByNumber E loc number datatype s)) = cache s
   \<and> cacheGet h t (snd (RequestByNumber E loc number datatype s)) = cacheGet h t s
   \<and> (cacheGet h t s = None \<longrightarrow>
        RequestByHash E' loc' h t (snd (RequestByNumber E loc number datatype s))
          = RequestByHash_network E' loc' h t (snd (RequestByNumber E loc number datatype s)))"
proof -
  let ?s' = "snd (RequestByNumber E loc number datatype s)"
  have c: "cache ?s' = cache s" by (rule RequestByNumber_cache)
  then have g: "cacheGet h t ?s' = cacheGet h t s" by (simp add: cacheGet_def)
  have "cacheGet h t s = None \<longrightarrow>
          RequestByHash E' loc' h t ?s' = RequestByHash_network E' loc' h t ?s'"
    using g by (simp add: RequestByHash_def)
  with c g show ?thesis by simp
qed

theorem RequestByNumber_never_caches_witness:
  "cacheGet 221 TBlockPtr empty_node = None
   \<and> fst (RequestByNumber (example_env (Inr (0, HashPtr (Some 221))) (Inl ''none''))
          (Location ''cyprus1'') (Some 42) THashPtr empty_node)
       = Returned [HashPtr (Some 221)]
   \<and> RequestByHash (example_env (Inr (0, HashPtr (Some 221))) (Inl ''none''))
        (Location ''cyprus1'') 221 TBlockPtr
        (snd (RequestByNumber (example_env (Inr (0, HashPtr (Some 221))) (Inl ''none''))
               (Location ''cyprus1'') (Some 42) THashPtr empty_node))
      = RequestByHash_network (example_env (Inr (0, HashPtr (Some 221))) (Inl ''none''))
        (Location ''cyprus1'') 221 TBlockPtr
        (snd (RequestByNumber (example_env (Inr (0, HashPtr (Some 221))) (Inl ''none''))
               (Location ''cyprus1'') (Some 42) THashPtr empty_node))"
proof -
  have miss: "cacheGet 221 TBlockPtr empty_node = None"
    by (simp add: cacheGet_def empty_node_def)
  show ?thesis
    using miss example_by_number_delivery
      RequestByNumber_never_caches
        [of "example_env (Inr (0, HashPtr (Some 221))) (Inl ''none'')" "Location ''cyprus1''"
            "Some 42" THashPtr empty_node 221 TBlockPtr
            "example_env (Inr (0, HashPtr (Some 221))) (Inl ''none'')" "Location ''cyprus1''"]
    by simp
qed

section \<open>The peer requester\<close>





lemma check_response_match:
  assumes "dt = TBlockPtr \<or> dt = THeaderPtr \<or> dt = TTransactionPtr"
    and "type_of recvd = dt" and "Hash recvd = Some h"
  shows "check_response dt (HashVal h) recvd = Accept recvd"
  using assms
  by (auto simp: check_response_def hash_matches_def split: dyn.splits option.splits)


lemma check_response_typed_nil:
  "check_response TBlockPtr data (BlockPtr None)
     = Crash ''invalid memory address or nil pointer dereference''"
  "check_response THeaderPtr data (HeaderPtr None)
     = Crash ''invalid memory address or nil pointer dereference''"
  "check_response TTransactionPtr data (TransactionPtr None)
     = Crash ''invalid memory address or nil pointer dereference''"
  by (simp_all add: check_response_def hash_matches_def)




text \<open>
  The early returns of \<open>requestFromPeer\<close> and the request ID manager: a read failure
  returns with the ID still pending, a write failure returns with the ID never added, and
  a response under another ID panics with the ID still pending and nobody banned.
\<close>

lemma requestFromPeer_read_failure:
  assumes "NewStream E p = None"
    and "EncodeQuaiRequest E (next_id s) loc data dt = Inr req"
    and "WriteMessageToStream E p req = None"
    and "peer_reply E p req = Inl err"
  shows "requestFromPeer E p loc data dt s =
     (Returned (Inl err), AddRequestID (next_id s) (snd (GenerateRequestID s)))"
    and "next_id s \<in> pending (snd (requestFromPeer E p loc data dt s))"
  using assms
  by (simp_all add: requestFromPeer_def GenerateRequestID_def AddRequestID_def Let_def)

lemma requestFromPeer_write_failure:
  assumes "NewStream E p = None"
    and "EncodeQuaiRequest E (next_id s) loc data dt = Inr req"
    and "WriteMessageToStream E p req = Some err"
  shows "requestFromPeer E p loc data dt s = (Returned (Inl err), snd (GenerateRequestID s))"
    and "pending (snd (requestFromPeer E p loc data dt s)) = pending s"
  using assms
  by (simp_all add: requestFromPeer_def GenerateRequestID_def Let_def)

lemma requestFromPeer_wrong_id:
  assumes "NewStream E p = None"
    and "EncodeQuaiRequest E (next_id s) loc data dt = Inr req"
    and "WriteMessageToStream E p req = None"
    and "peer_reply E p req = Inr resp"
    and "DecodeQuaiResponse E resp = Inr (recvdID, recvd)"
    and "recvdID \<noteq> next_id s"
  shows "requestFromPeer E p loc data dt s =
     (Panicked ''TODO: implement'', AddRequestID (next_id s) (snd (GenerateRequestID s)))"
    and "banned (snd (requestFromPeer E p loc data dt s)) = banned s"
    and "next_id s \<in> pending (snd (requestFromPeer E p loc data dt s))"
  using assms
  by (simp_all add: requestFromPeer_def GenerateRequestID_def AddRequestID_def Let_def)

text \<open>
  C3: the request ID is not added and removed exactly once on every outcome. When reading
  the response fails, \<open>requestFromPeer\<close> returns the error after \<open>AddRequestID\<close> and
  before \<open>RemoveRequestID\<close>: the ID 0 stays in the pending set. When writing the request
  fails, it returns before \<open>AddRequestID\<close>: the ID 0 was generated and never added.
\<close>

theorem requestFromPeer_registry_leak:
  "requestFromPeer
     ((example_env (Inr (0, BlockPtr (Some example_block))) (Inl ''none''))
        \<lparr>peer_reply := (\<lambda>p req. Inl ''stream reset'')\<rparr>)
     1 (Location ''cyprus1'') (HashVal 187) TBlockPtr empty_node
   = (Returned (Inl ''stream reset''),
      empty_node\<lparr>next_id := 1, pending := {0}, registry_log := [Generated 0, Added 0]\<rparr>)
   \<and> requestFromPeer
     ((example_env (Inr (0, BlockPtr (Some example_block))) (Inl ''none''))
        \<lparr>WriteMessageToStream := (\<lambda>p bs. Some ''write failed'')\<rparr>)
     1 (Location ''cyprus1'') (HashVal 187) TBlockPtr empty_node
   = (Returned (Inl ''write failed''),
      empty_node\<lparr>next_id := 1, registry_log := [Generated 0]\<rparr>)"
  by (simp add: requestFromPeer_def example_env_def empty_node_def
      GenerateRequestID_def AddRequestID_def)

text \<open>
  C4: a response that carries another request ID than the one sent (5 instead of 0) is not
  turned into an error: \<open>requestFromPeer\<close> panics, the peer is not banned and the ID
  sent stays in the pending set.
\<close>

theorem requestFromPeer_wrong_id_panics:
  "requestFromPeer (example_env (Inr (5, BlockPtr (Some example_block))) (Inl ''none''))
     1 (Location ''cyprus1'') (HashVal 187) TBlockPtr empty_node
   = (Panicked ''TODO: implement'',
      empty_node\<lparr>next_id := 1, pending := {0}, registry_log := [Generated 0, Added 0]\<rparr>)"
  by (simp add: requestFromPeer_def example_env_def empty_node_def
      GenerateRequestID_def AddRequestID_def)

section \<open>The inbound handler and the node facade\<close>

text \<open>
  A selector that is a \<open>*big.Int\<close>, the dynamic type under which the read loop logs a
  number and under which \<open>Request\<close> recognises one, is never answered, whatever the decoded
  type tag: no frame is added to the stream.
\<close>

lemma dispatch_number_pointer_unanswered:
  "snd (dispatch E rp s i decodedType loc (BigIntPtr n) written) = written"
  by (simp add: dispatch_def split: go_type.splits)

text \<open>
  A block that \<open>GetBlock\<close> does not find makes the Block handler panic before anything
  is encoded, and the Header handler panics in \<open>GetHeader\<close>.
\<close>

lemma handleBlockRequest_not_found:
  "GetBlock h loc s = Returned None \<Longrightarrow>
     handleBlockRequest E i loc h rp s written
       = (Panicked ''invalid memory address or nil pointer dereference'', written)"
  by (simp add: handleBlockRequest_def)

lemma handleHeaderRequest_panics:
  "handleHeaderRequest E i loc h rp s written = (Panicked ''TODO: implement'', written)"
  by (simp add: handleHeaderRequest_def GetHeader_def)

text \<open>
  C1: a request for the hash of block 42 with request ID 7 does not reach the block-number
  handler. Decoded with the tag \<open>*common.Hash\<close> it falls into the default branch of the
  type switch and nothing is written back; decoded with the tag \<open>common.Hash\<close> the
  assertion \<open>query.(big.Int)\<close> panics on the \<open>*big.Int\<close> selector. Only a selector of
  dynamic type \<open>big.Int\<close> under the tag \<open>common.Hash\<close> is answered.
\<close>

theorem by_number_request_unanswered:
  "QuaiProtocolHandler
     (example_env (Inl ''none'') (Inr (7, THashPtr, Location ''cyprus1'', BigIntPtr (Some 42))))
     example_stream serving_node
   = (Returned (), [])
   \<and> QuaiProtocolHandler
     (example_env (Inl ''none'') (Inr (7, THashVal, Location ''cyprus1'', BigIntPtr (Some 42))))
     example_stream serving_node
   = (Panicked ''interface conversion: interface {} is not big.Int'', [])
   \<and> QuaiProtocolHandler
     (example_env (Inl ''none'') (Inr (7, THashVal, Location ''cyprus1'', BigIntVal 42)))
     example_stream serving_node
   = (Returned (), [[7]])"
  by (simp add: QuaiProtocolHandler_def ProtocolVersion_def example_stream_def
      example_env_def dispatch_def handleBlockNumberRequest_def GetBlockHashByNumber_def
      serving_node_def empty_node_def example_backend_def)

text \<open>
  C5: a Block request for a hash that neither the cache nor the backend holds
  (\<open>GetBlock\<close> returns nil) gets no reply: after logging, the handler calls \<open>Hash()\<close> on
  the nil block and panics, and no frame is written.
\<close>

theorem block_request_not_found_panics:
  "GetBlock 187 (Location ''cyprus1'') serving_node = Returned None
   \<and> QuaiProtocolHandler
     (example_env (Inl ''none'') (Inr (7, TBlockPtr, Location ''cyprus1'', HashVal 187)))
     example_stream serving_node
   = (Panicked ''invalid memory address or nil pointer dereference'', [])"
  by (simp add: QuaiProtocolHandler_def ProtocolVersion_def example_stream_def
      example_env_def dispatch_def handleBlockRequest_def GetBlock_def cacheGet_def
      serving_node_def empty_node_def example_backend_def)

text \<open>
  C7: \<open>GetHeader\<close> panics, whether or not the cache holds a header for the hash: it
  consults neither the cache nor the backend's \<open>LookupHeader\<close>.
\<close>

theorem GetHeader_panics:
  "GetHeader 170 (Location ''cyprus1'')
     (cacheAdd 170 (HeaderPtr (Some example_header)) serving_node)
   = Panicked ''TODO: implement''
   \<and> GetHeader 170 (Location ''cyprus1'') serving_node = Panicked ''TODO: implement''"
  by (simp add: GetHeader_def)

text \<open>
  C9: \<open>handleBroadcast\<close> calls the consensus backend's \<open>OnNewBroadcast\<close> only when a
  backend is set. With no backend, no call is recorded and a broadcast \<open>types.Block\<close> is
  still put into the cache, the result being exactly the state after \<open>cacheAdd\<close>; with a
  backend, the block is cached and then forwarded. A payload of any other dynamic type
  leaves the state as it was: it is dropped before anything is forwarded.
\<close>

theorem handleBroadcast_forwarding:
  "(consensus s = None \<longrightarrow>
      broadcasts (handleBroadcast sourcePeer data nodeLocation s) = broadcasts s)
   \<and> (consensus s = None \<longrightarrow>
      handleBroadcast sourcePeer (BlockVal v) nodeLocation s
        = cacheAdd (block_hash v) (BlockPtr (Some v)) s)
   \<and> (consensus s = Some be \<longrightarrow>
      handleBroadcast sourcePeer (BlockVal v) nodeLocation s
        = (cacheAdd (block_hash v) (BlockPtr (Some v)) s)
            \<lparr>broadcasts := broadcasts s @ [(sourcePeer, BlockVal v, nodeLocation)]\<rparr>)
   \<and> (type_of data \<noteq> TBlockVal \<longrightarrow> handleBroadcast sourcePeer data nodeLocation s = s)"
  by (cases data) (simp_all add: handleBroadcast_def cacheAdd_def Let_def)

theorem handleBroadcast_forwarding_witness:
  "consensus empty_node = None
   \<and> handleBroadcast 3 (BlockVal example_block) (Location ''cyprus1'') empty_node
       = cacheAdd 187 (BlockPtr (Some example_block)) empty_node
   \<and> broadcasts (handleBroadcast 3 (BlockVal example_block) (Location ''cyprus1'') empty_node) = []
   \<and> cacheGet 187 TBlockPtr
        (handleBroadcast 3 (BlockVal example_block) (Location ''cyprus1'') empty_node)
       = Some (BlockPtr (Some example_block))
   \<and> broadcasts (handleBroadcast 3 (BlockVal example_block) (Location ''cyprus1'') serving_node)
       = [(3, BlockVal example_block, Location ''cyprus1'')]
   \<and> handleBroadcast 3 (BlockPtr (Some example_block)) (Location ''cyprus1'') serving_node
       = serving_node"
proof -
  have none: "consensus empty_node = None" by (simp add: empty_node_def)
  have some: "consensus serving_node = Some example_backend" by (simp add: serving_node_def)
  have h: "block_hash example_block = 187" by (simp add: example_block_def)
  have a: "handleBroadcast 3 (BlockVal example_block) (Location ''cyprus1'') empty_node
       = cacheAdd 187 (BlockPtr (Some example_block)) empty_node"
    and b: "broadcasts (handleBroadcast 3 (BlockVal example_block) (Location ''cyprus1'') empty_node)
       = broadcasts empty_node"
    using none h handleBroadcast_forwarding
      [of empty_node 3 "BlockVal example_block" "Location ''cyprus1''" example_block]
    by (simp_all add: cacheAdd_def)
  have c: "handleBroadcast 3 (BlockVal example_block) (Location ''cyprus1'') serving_node
       = (cacheAdd 187 (BlockPtr (Some example_block)) serving_node)
            \<lparr>broadcasts := broadcasts serving_node @
               [(3, BlockVal example_block, Location ''cyprus1'')]\<rparr>"
    using some h handleBroadcast_forwarding
      [of serving_node 3 "BlockVal example_block" "Location ''cyprus1''" example_block
          example_backend]
    by simp
  have d: "handleBroadcast 3 (BlockPtr (Some example_block)) (Location ''cyprus1'') serving_node
       = serving_node"
    using handleBroadcast_forwarding
      [of serving_node 3 "BlockPtr (Some example_block)" "Location ''cyprus1''"]
    by simp
  have e: "broadcasts empty_node = []" "broadcasts serving_node = []"
    by (simp_all add: empty_node_def serving_node_def)
  have g: "cacheGet 187 TBlockPtr (cacheAdd 187 (BlockPtr (Some example_block)) empty_node)
       = Some (BlockPtr (Some example_block))"
    by (simp add: cacheGet_def cacheAdd_def)
  show ?thesis using none a b c d e g by (simp add: cacheAdd_def)
qed

section \<open>The cache fast path of the dispatcher\<close>

text \<open>
  C10: on a cache hit \<open>RequestByHash\<close> sends the cached value through the assertion
  \<open>res.(*types.Block)\<close>, whatever the requested datatype. If the cached payload is a
  \<open>*types.Block\<close>, that block is the one value sent and the state is unchanged; if it is
  of any other dynamic type, such as a header cached and requested under the Header tag,
  the assertion panics.
\<close>

theorem RequestByHash_fast_path:
  "(cacheGet h datatype s = Some (BlockPtr b) \<longrightarrow>
      RequestByHash E loc h datatype s = (Returned [BlockPtr b], s))
   \<and> (cacheGet h datatype s = Some res \<and> type_of res \<noteq> TBlockPtr \<longrightarrow>
      RequestByHash E loc h datatype s
        = (Panicked ''interface conversion: interface {} is not *types.Block'', s))"
  by (cases res) (simp_all add: RequestByHash_def)

theorem RequestByHash_fast_path_witness:
  "cacheGet 187 TBlockPtr (cacheAdd 187 (BlockPtr (Some example_block)) empty_node)
     = Some (BlockPtr (Some example_block))
   \<and> RequestByHash (example_env (Inl ''none'') (Inl ''none'')) (Location ''cyprus1'') 187 TBlockPtr
       (cacheAdd 187 (BlockPtr (Some example_block)) empty_node)
     = (Returned [BlockPtr (Some example_block)],
        cacheAdd 187 (BlockPtr (Some example_block)) empty_node)
   \<and> cacheGet 170 THeaderPtr (cacheAdd 170 (HeaderPtr (Some example_header)) empty_node)
     = Some (HeaderPtr (Some example_header))
   \<and> RequestByHash (example_env (Inl ''none'') (Inl ''none'')) (Location ''cyprus1'') 170 THeaderPtr
       (cacheAdd 170 (HeaderPtr (Some example_header)) empty_node)
     = (Panicked ''interface conversion: interface {} is not *types.Block'',
        cacheAdd 170 (HeaderPtr (Some example_header)) empty_node)"
proof -
  let ?E = "example_env (Inl ''none'') (Inl ''none'')"
  let ?L = "Location ''cyprus1''"
  have hitB: "cacheGet 187 TBlockPtr (cacheAdd 187 (BlockPtr (Some example_block)) empty_node)
     = Some (BlockPtr (Some example_block))"
    by (simp add: cacheGet_def cacheAdd_def)
  have hitH: "cacheGet 170 THeaderPtr (cacheAdd 170 (HeaderPtr (Some example_header)) empty_node)
     = Some (HeaderPtr (Some example_header))"
    by (simp add: cacheGet_def cacheAdd_def)
  have a: "RequestByHash ?E ?L 187 TBlockPtr
       (cacheAdd 187 (BlockPtr (Some example_block)) empty_node)
     = (Returned [BlockPtr (Some example_block)],
        cacheAdd 187 (BlockPtr (Some example_block)) empty_node)"
    using hitB RequestByHash_fast_path
      [of 187 TBlockPtr "cacheAdd 187 (BlockPtr (Some example_block)) empty_node"
          "Some example_block" ?E ?L]
    by simp
  have b: "RequestByHash ?E ?L 170 THeaderPtr
       (cacheAdd 170 (HeaderPtr (Some example_header)) empty_node)
     = (Panicked ''interface conversion: interface {} is not *types.Block'',
        cacheAdd 170 (HeaderPtr (Some example_header)) empty_node)"
    using hitH RequestByHash_fast_path
      [of 170 THeaderPtr "cacheAdd 170 (HeaderPtr (Some example_header)) empty_node"
          _ ?E ?L "HeaderPtr (Some example_header)"]
    by simp
  show ?thesis using hitB hitH a b by simp
qed

section \<open>The content identifier\<close>

lemma sha256_length: "length (sha256 msg) = 32"
  by (simp add: sha256_def be32_def Let_def split: prod.splits)

text \<open>The digest of \<open>abc\<close>, the first test vector of the standard.\<close>

lemma sha256_abc:
  "sha256 (map of_char ''abc'') =
     [186, 120, 22, 191, 143, 1, 207, 234, 65, 65, 64, 222, 93, 174, 34, 35,
      176, 3, 97, 163, 150, 23, 122, 156, 180, 16, 255, 97, 242, 0, 21, 173]"
  by code_simp

lemma uvarint_small: "x < 128 \<Longrightarrow> uvarint x = [of_nat x]"
  by (subst uvarint.simps) simp

lemma uvarint_nonempty: "0 < length (uvarint x)"
  by (subst uvarint.simps) simp

lemma uvarint_length_mono: "a \<le> b \<Longrightarrow> length (uvarint a) \<le> length (uvarint b)"
proof (induction a arbitrary: b rule: uvarint.induct)
  case (1 x)
  show ?case
  proof (cases "x < 128")
    case True
    then have "length (uvarint x) = 1" by (subst uvarint.simps) simp
    then show ?thesis using uvarint_nonempty [of b] by (cases "uvarint b") simp_all
  next
    case False
    then have b: "\<not> b < 128" using "1.prems" by simp
    have "x div 128 \<le> b div 128" using "1.prems" by (rule div_le_mono)
    then have "length (uvarint (x div 128)) \<le> length (uvarint (b div 128))"
      using "1.IH" [OF False] by simp
    then show ?thesis
      using False b by (subst uvarint.simps, subst (2) uvarint.simps) simp
  qed
qed

lemma length_prefixed_inj:
  assumes "uvarint (length xs) @ xs = uvarint (length ys) @ ys"
  shows "xs = ys"
proof -
  have len: "length (uvarint (length xs)) + length xs = length (uvarint (length ys)) + length ys"
    using assms by (metis length_append)
  have "length xs = length ys"
  proof (rule ccontr)
    assume ne: "length xs \<noteq> length ys"
    show False
    proof (cases "length xs < length ys")
      case True
      then have "length (uvarint (length xs)) \<le> length (uvarint (length ys))"
        by (simp add: uvarint_length_mono)
      with True len show False by simp
    next
      case False
      with ne have gt: "length ys < length xs" by simp
      then have "length (uvarint (length ys)) \<le> length (uvarint (length xs))"
        by (simp add: uvarint_length_mono)
      with gt len show False by simp
    qed
  qed
  then show ?thesis using assms by simp
qed

lemma of_char_byte_inj: "(of_char c :: byte) = of_char d \<Longrightarrow> c = d"
proof -
  assume eq: "(of_char c :: byte) = of_char d"
  have u: "unat (of_char x :: byte) = (of_char x :: nat)" for x
  proof -
    have "(of_char x :: byte) = of_nat (of_char x)" by (simp only: of_nat_of_char)
    moreover have "(of_char x :: nat) mod 256 = of_char x" by (rule of_char_mod_256)
    ultimately show ?thesis by (simp add: unat_of_nat)
  qed
  from eq have "unat (of_char c :: byte) = unat (of_char d :: byte)" by simp
  then have "(of_char c :: nat) = of_char d" by (simp only: u)
  then show "c = d" by simp
qed


lemma name_bytes_inj:
  "map (of_char :: char \<Rightarrow> byte) xs = map of_char ys \<Longrightarrow> xs = ys"
proof (induction xs arbitrary: ys)
  case Nil
  then show ?case by simp
next
  case (Cons x xs)
  then obtain y ys' where ys: "ys = y # ys'" by (cases ys) auto
  with Cons.prems have "(of_char x :: byte) = of_char y" and "map (of_char :: char \<Rightarrow> byte) xs = map of_char ys'"
    by simp_all
  then show ?case using ys Cons.IH of_char_byte_inj by blast
qed

lemma locationToCid_unfolded:
  "locationToCid loc = [1, 85, 18] @ uvarint (length (Name loc)) @ map of_char (Name loc)"
  by (simp add: locationToCid_def NewCidV1_def multihash_Encode_def Raw_def SHA2_256_def
      uvarint_small)

text \<open>
  What \<open>locationToCid\<close> computes: the bytes 1 (CID version), 85 (raw codec) and 18 (the
  function code of SHA2-256), the varint of the length of the name, and the name itself,
  unhashed. Equal names give equal identifiers and different names different ones.
\<close>

lemma locationToCid_wraps_name:
  "locationToCid loc
     = uvarint 1 @ uvarint Raw @ uvarint SHA2_256 @ uvarint (length (Name loc))
         @ map of_char (Name loc)
   \<and> locationToCid loc = [1, 85, 18] @ uvarint (length (Name loc)) @ map of_char (Name loc)
   \<and> (locationToCid l1 = locationToCid l2 \<longleftrightarrow> Name l1 = Name l2)"
proof -
  have a: "locationToCid loc
     = uvarint 1 @ uvarint Raw @ uvarint SHA2_256 @ uvarint (length (Name loc))
         @ map of_char (Name loc)"
    by (simp add: locationToCid_def NewCidV1_def multihash_Encode_def)
  have "locationToCid l1 = locationToCid l2 \<Longrightarrow> Name l1 = Name l2"
  proof -
    assume "locationToCid l1 = locationToCid l2"
    then have "uvarint (length (map (of_char :: char \<Rightarrow> byte) (Name l1))) @ map of_char (Name l1)
        = uvarint (length (map (of_char :: char \<Rightarrow> byte) (Name l2))) @ map of_char (Name l2)"
      by (simp add: locationToCid_unfolded)
    then have "map (of_char :: char \<Rightarrow> byte) (Name l1) = map of_char (Name l2)"
      by (rule length_prefixed_inj)
    then show "Name l1 = Name l2" by (rule name_bytes_inj)
  qed
  moreover have "Name l1 = Name l2 \<Longrightarrow> locationToCid l1 = locationToCid l2"
    by (simp add: locationToCid_def)
  ultimately show ?thesis using a locationToCid_unfolded by blast
qed

lemma locationToCid_prime:
  "locationToCid (Location ''prime'') = [1, 85, 18, 5, 112, 114, 105, 109, 101]"
  by (simp add: locationToCid_unfolded uvarint_small)

text \<open>
  C6: for the location named \<open>prime\<close> the identifier is not the CIDv1 whose multihash is
  the SHA2-256 digest of the name: \<open>multihash.Encode\<close> labels the five bytes of the name
  as a SHA2-256 digest and computes none, so the identifier has 9 bytes where the one of
  the specification has 36.
\<close>

theorem locationToCid_not_sha256:
  "locationToCid (Location ''prime'') \<noteq> locationToCid_spec (Location ''prime'')"
proof -
  have "length (locationToCid (Location ''prime'')) = 9"
    by (simp add: locationToCid_unfolded uvarint_small)
  moreover have "length (locationToCid_spec (Location ''prime'')) = 36"
    by (simp add: locationToCid_spec_def NewCidV1_def multihash_Encode_def Raw_def
        SHA2_256_def sha256_length uvarint_small)
  ultimately show ?thesis by auto
qed

end
